theory Spec2Isabelle
  imports Main
begin

section \<open>Values and documents of \<open>Server/app.js\<close>\<close>

text \<open>
  JavaScript values as they arrive in \<open>req.body\<close> and leave through \<open>res.json\<close>.
  \<open>JUndefined\<close> is what destructuring yields for a key the body does not have.
\<close>

datatype jsval =
    JUndefined
  | JNull
  | JBool bool
  | JNum int
  | JStr string
  | JArr "jsval list"
  | JObj "(string \<times> jsval) list"

text \<open>JavaScript truthiness, as used by \<open>!campus1\<close>, \<open>!req.user\<close>, \<open>!details\<close>.\<close>

fun truthy :: "jsval \<Rightarrow> bool" where
  "truthy JUndefined = False"
| "truthy JNull = False"
| "truthy (JBool b) = b"
| "truthy (JNum n) = (n \<noteq> 0)"
| "truthy (JStr s) = (s \<noteq> [])"
| "truthy (JArr xs) = True"
| "truthy (JObj kvs) = True"

text \<open>Reading a key of a JSON object: \<open>const { k } = req.body\<close>.\<close>

definition field :: "(string \<times> jsval) list \<Rightarrow> string \<Rightarrow> jsval" where
  "field b k = (case map_of b k of None \<Rightarrow> JUndefined | Some v \<Rightarrow> v)"

section \<open>Session configuration (lines 57--68)\<close>

text \<open>The part of \<open>process.env\<close> that the session configuration reads.\<close>

record environment =
  NODE_ENV :: "string option"
  SESSION_SECRET :: "string option"

datatype same_site = Lax | Strict | SameSiteNone

record cookie_options =
  httpOnly :: bool
  sameSite :: same_site
  secure :: bool

record session_options =
  secret :: string
  resave :: bool
  saveUninitialized :: bool
  cookie :: cookie_options

definition sessionOptions :: "environment \<Rightarrow> session_options" where
  "sessionOptions env =
     \<lparr> secret = (case SESSION_SECRET env of
                    None \<Rightarrow> ''change_this''
                  | Some s \<Rightarrow> if s = [] then ''change_this'' else s),
       resave = False,
       saveUninitialized = False,
       cookie = \<lparr> httpOnly = True,
                  sameSite = Lax,
                  secure = (NODE_ENV env = Some ''production'') \<rparr> \<rparr>"

text \<open>
  The cookie policy in the words of the specification, for a service whose transport is
  encrypted (\<open>tls\<close>) or not: HTTP-only, same-site, and secure when the transport is
  encrypted.
\<close>

definition spec_cookie_policy :: "bool \<Rightarrow> cookie_options \<Rightarrow> bool" where
  "spec_cookie_policy tls c =
     (httpOnly c \<and> sameSite c \<noteq> SameSiteNone \<and> (tls \<longrightarrow> secure c))"

section \<open>Documents, state, requests and responses\<close>

text \<open>
  The model files \<open>models/*.js\<close> are not part of the sources at hand; each document type
  below has the fields that \<open>app.js\<close> passes to its constructor, plus the identifier
  \<open>_id\<close> that the store assigns (ObjectIds are modelled as natural numbers).
\<close>

text \<open>\<open>new User({ firstname, lastname, username, email, campus1 })\<close>\<close>

record profile =
  firstname :: jsval
  lastname :: jsval
  username :: jsval
  email :: jsval
  campus1 :: jsval

text \<open>A stored credential record: identity, profile fields, salted hash and salt.\<close>

record user =
  u_id :: nat
  u_profile :: profile
  hash :: string
  salt :: string

text \<open>A principal, \<open>req.user\<close>: the credential record without its secret fields.\<close>

record principal =
  p_id :: nat
  p_profile :: profile

definition strip :: "user \<Rightarrow> principal" where
  "strip u = \<lparr> p_id = u_id u, p_profile = u_profile u \<rparr>"

text \<open>\<open>new Project({ name, desc, num, type, createdBy: userId })\<close>\<close>

record project =
  proj_id :: nat
  proj_name :: jsval
  proj_desc :: jsval
  proj_num :: jsval
  proj_type :: jsval
  createdBy :: nat

text \<open>\<open>new Club({ clubName, type, description, googleFormLink, posterImage })\<close>\<close>

record club =
  club_id :: nat
  clubName :: jsval
  club_type :: jsval
  description :: jsval
  googleFormLink :: jsval
  posterImage :: "string option"

text \<open>
  \<open>new userdetail({ phone, instagram, twitter, linkedIn, github, fullName, email, campus,
  skills, projects })\<close>
\<close>

record userdetail =
  detail_id :: nat
  phone :: jsval
  instagram :: jsval
  twitter :: jsval
  linkedIn :: jsval
  github :: jsval
  fullName :: jsval
  detail_email :: jsval
  campus :: jsval
  skills :: jsval
  detail_projects :: jsval

text \<open>
  The store: the four collections, the live sessions (cookie token to principal
  identifier) and the next identifier the store hands out.
\<close>

record state =
  users :: "user list"
  sessions :: "(string \<times> nat) list"
  projects :: "project list"
  clubs :: "club list"
  userdetails :: "userdetail list"
  next_id :: nat

text \<open>
  A request: the session cookie it carries, \<open>req.user\<close> (set by the session middleware),
  \<open>req.body\<close>, \<open>req.params.fullName\<close>, the uploaded file's buffer and
  \<open>req.userDetails\<close> (set by \<open>getUserDetails\<close>).
\<close>

record request =
  req_cookie :: "string option"
  req_user :: "principal option"
  req_body :: "(string \<times> jsval) list"
  req_fullName :: string
  req_file :: "string option"
  req_userDetails :: "userdetail option"

text \<open>
  A response body: text (\<open>res.send\<close>), a JSON value, documents handed to \<open>res.json\<close>,
  the \<open>fullName skills -_id\<close> projection of \<open>/people\<close>, or a file (\<open>res.sendFile\<close>).
\<close>

datatype body =
    Text string
  | Json jsval
  | JsonProjects "project list"
  | JsonClubs "club list"
  | JsonDetail userdetail
  | JsonPeople "(jsval \<times> jsval) list"
  | SendFile string

record response =
  status :: nat
  content :: body
  set_cookie :: "string option"

definition json :: "nat \<Rightarrow> jsval \<Rightarrow> response" where
  "json code v = \<lparr> status = code, content = Json v, set_cookie = None \<rparr>"

definition reply :: "nat \<Rightarrow> body \<Rightarrow> response" where
  "reply code b = \<lparr> status = code, content = b, set_cookie = None \<rparr>"

section \<open>What \<open>app.js\<close> imports\<close>

datatype reg_error = DuplicateIdentity | ValidationFailure

text \<open>
  The functions that \<open>app.js\<close> calls and does not define are parameters of the model:
  \<^item> \<open>isLoggedIn\<close>: the guard of \<open>./middleware\<close>; \<open>Some r\<close> ends the request with \<open>r\<close>,
    \<open>None\<close> calls \<open>next()\<close>;
  \<^item> \<open>register\<close>: \<open>User.register(newUser, password)\<close>, which throws or stores the user;
  \<^item> \<open>authenticate\<close>: the verify function \<open>User.authenticate()\<close> of the local
    strategy; \<open>auth_failure\<close>: the response of \<open>passport.authenticate\<close> when it
    fails; \<open>new_token\<close>: the session identifier of a new session;
  \<^item> \<open>project_valid\<close>, \<open>club_valid\<close>, \<open>detail_valid\<close>: whether \<open>save()\<close> accepts the
    document under the schema; \<open>club_error\<close>, \<open>detail_error\<close>: the text of the error
    that \<open>save()\<close> throws otherwise; \<open>upload_error\<close>: the response when the upload
    exceeds the size limit.
  Failures of the connection to the store are outside the model.
\<close>

record deps =
  isLoggedIn :: "request \<Rightarrow> response option"
  register :: "state \<Rightarrow> profile \<Rightarrow> jsval \<Rightarrow> reg_error + state"
  authenticate :: "user list \<Rightarrow> jsval \<Rightarrow> jsval \<Rightarrow> principal option"
  auth_failure :: "request \<Rightarrow> response"
  new_token :: "nat \<Rightarrow> string"
  project_valid :: "project \<Rightarrow> bool"
  club_valid :: "club \<Rightarrow> bool"
  club_error :: "club \<Rightarrow> string"
  detail_valid :: "userdetail \<Rightarrow> bool"
  detail_error :: "userdetail \<Rightarrow> string"
  upload_error :: response

section \<open>The route handlers of \<open>app.js\<close>\<close>

text \<open>
  Each handler takes the store and the request and returns the response with the store
  after it. A \<open>throw\<close> inside a \<open>try\<close> is the branch that returns what the \<open>catch\<close>
  sends.
\<close>

subsection \<open>\<open>GET /health\<close> (line 78)\<close>

definition get_health :: "state \<Rightarrow> response \<times> state" where
  "get_health st = (reply 200 (Text ''ok''), st)"

subsection \<open>\<open>POST /signup\<close> (lines 81--94)\<close>

definition signup_ok :: response where
  "signup_ok =
     json 200 (JObj [(''status'', JStr ''success''), (''message'', JStr ''Signup successful'')])"

definition signup_error :: response where
  "signup_error =
     json 500 (JObj [(''status'', JStr ''error''), (''message'', JStr ''Error during signup'')])"

text \<open>\<open>new User({ firstname, lastname, username, email, campus1 })\<close> of the body's keys.\<close>

definition newUser :: "(string \<times> jsval) list \<Rightarrow> profile" where
  "newUser b =
     \<lparr> firstname = field b ''firstname'',
       lastname = field b ''lastname'',
       username = field b ''username'',
       email = field b ''email'',
       campus1 = field b ''campus1'' \<rparr>"

definition post_signup :: "deps \<Rightarrow> state \<Rightarrow> request \<Rightarrow> response \<times> state" where
  "post_signup D st req =
     (let b = req_body req;
          password = field b ''password''
      in if \<not> truthy (field b ''campus1'') then (signup_error, st)
         else (case register D st (newUser b) password of
                 Inl e \<Rightarrow> (signup_error, st)
               | Inr st' \<Rightarrow> (signup_ok, st')))"

subsection \<open>\<open>POST /login\<close> and \<open>POST /clublogin\<close> (lines 96--108)\<close>

text \<open>
  \<open>passport.authenticate('local', ...)\<close> runs the verify function on the body's
  \<open>username\<close> and \<open>password\<close>; when it fails it answers by itself, when it succeeds it
  opens a session and the handler of \<open>app.js\<close> answers. The flash message that
  \<open>failureFlash\<close> keeps in the session of a failed attempt is not part of the store here.
\<close>

definition login_ok :: "string \<Rightarrow> response" where
  "login_ok t =
     \<lparr> status = 200,
       content = Json (JObj [(''status'', JStr ''success''), (''message'', JStr ''Welcome'')]),
       set_cookie = Some t \<rparr>"

definition post_login :: "deps \<Rightarrow> state \<Rightarrow> request \<Rightarrow> response \<times> state" where
  "post_login D st req =
     (let b = req_body req
      in case authenticate D (users st) (field b ''username'') (field b ''password'') of
           None \<Rightarrow> (auth_failure D req, st)
         | Some p \<Rightarrow>
             (let t = new_token D (next_id st)
              in (login_ok t,
                  st\<lparr> sessions := (t, p_id p) # sessions st, next_id := Suc (next_id st) \<rparr>)))"

subsection \<open>\<open>GET /listings\<close> and \<open>GET /clubpost\<close> (lines 111--128)\<close>

definition get_listings :: "state \<Rightarrow> response \<times> state" where
  "get_listings st = (reply 200 (JsonProjects (projects st)), st)"

definition get_clubpost :: "state \<Rightarrow> response \<times> state" where
  "get_clubpost st = (reply 200 (JsonClubs (clubs st)), st)"

subsection \<open>\<open>getUserDetails\<close> and \<open>GET /userpage\<close> (lines 131--145)\<close>

definition not_authenticated :: response where
  "not_authenticated = json 401 (JObj [(''error'', JStr ''Not authenticated'')])"

definition getUserDetails :: "state \<Rightarrow> request \<Rightarrow> response + request" where
  "getUserDetails st req =
     (case req_user req of
        None \<Rightarrow> Inl not_authenticated
      | Some p \<Rightarrow>
          Inr (req\<lparr> req_userDetails :=
                      find (\<lambda>d. detail_email d = email (p_profile p)) (userdetails st) \<rparr>))"

definition get_userpage :: "deps \<Rightarrow> state \<Rightarrow> request \<Rightarrow> response \<times> state" where
  "get_userpage D st req =
     (case isLoggedIn D req of
        Some r \<Rightarrow> (r, st)
      | None \<Rightarrow>
          (case getUserDetails st req of
             Inl r \<Rightarrow> (r, st)
           | Inr req' \<Rightarrow>
               (case req_userDetails req' of
                  None \<Rightarrow> (json 200 (JObj []), st)
                | Some d \<Rightarrow> (reply 200 (JsonDetail d), st))))"

subsection \<open>\<open>GET /people\<close> and \<open>GET /userdetails/:fullName\<close> (lines 147--165)\<close>

definition get_people :: "state \<Rightarrow> response \<times> state" where
  "get_people st =
     (reply 200 (JsonPeople (map (\<lambda>d. (fullName d, skills d)) (userdetails st))), st)"

definition get_userdetails :: "state \<Rightarrow> request \<Rightarrow> response \<times> state" where
  "get_userdetails st req =
     (case find (\<lambda>d. fullName d = JStr (req_fullName req)) (userdetails st) of
        None \<Rightarrow> (json 404 (JObj [(''message'', JStr ''User not found'')]), st)
      | Some d \<Rightarrow> (reply 200 (JsonDetail d), st))"

subsection \<open>\<open>POST /makeproj\<close> (lines 168--180)\<close>

definition makeproj_error :: response where
  "makeproj_error =
     json 500 (JObj [(''status'', JStr ''error''),
                     (''message'', JStr ''Error during project creation'')])"

text \<open>
  The handler behind the guard. Reading \<open>req.user._id\<close> of an undefined \<open>req.user\<close>
  throws inside the \<open>try\<close>.
\<close>

definition makeproj_handler :: "deps \<Rightarrow> state \<Rightarrow> request \<Rightarrow> response \<times> state" where
  "makeproj_handler D st req =
     (case req_user req of
        None \<Rightarrow> (makeproj_error, st)
      | Some p \<Rightarrow>
          (let userId = p_id p;
               b = req_body req;
               savedProject = \<lparr> proj_id = next_id st,
                                proj_name = field b ''name'',
                                proj_desc = field b ''desc'',
                                proj_num = field b ''num'',
                                proj_type = field b ''type'',
                                createdBy = userId \<rparr>
           in if project_valid D savedProject
              then (json 200 (JObj [(''status'', JStr ''success''),
                                    (''id'', JNum (int (proj_id savedProject)))]),
                    st\<lparr> projects := projects st @ [savedProject],
                        next_id := Suc (next_id st) \<rparr>)
              else (makeproj_error, st)))"

definition post_makeproj :: "deps \<Rightarrow> state \<Rightarrow> request \<Rightarrow> response \<times> state" where
  "post_makeproj D st req =
     (case isLoggedIn D req of
        Some r \<Rightarrow> (r, st)
      | None \<Rightarrow> makeproj_handler D st req)"

subsection \<open>\<open>POST /clublisting\<close> (lines 183--202)\<close>

definition fileSize :: nat where
  "fileSize = 5 * 1024 * 1024"

definition post_clublisting :: "deps \<Rightarrow> state \<Rightarrow> request \<Rightarrow> response \<times> state" where
  "post_clublisting D st req =
     (if (case req_file req of None \<Rightarrow> False | Some buf \<Rightarrow> fileSize < length buf)
      then (upload_error D, st)
      else
        (let b = req_body req;
             newClub = \<lparr> club_id = next_id st,
                         clubName = field b ''clubName'',
                         club_type = field b ''type'',
                         description = field b ''description'',
                         googleFormLink = field b ''googleFormLink'',
                         posterImage = req_file req \<rparr>
         in if club_valid D newClub
            then (json 200 (JObj [(''status'', JStr ''success''),
                                  (''message'', JStr ''Club added!'')]),
                  st\<lparr> clubs := clubs st @ [newClub], next_id := Suc (next_id st) \<rparr>)
            else (json 400 (JObj [(''error'', JStr (club_error D newClub))]), st)))"

subsection \<open>\<open>POST /userpage\<close> (lines 204--224)\<close>

text \<open>\<open>details.save()\<close> of a document that the store already holds replaces it there.\<close>

definition save_detail :: "userdetail \<Rightarrow> userdetail list \<Rightarrow> userdetail list" where
  "save_detail d ds = map (\<lambda>x. if detail_id x = detail_id d then d else x) ds"

definition userpage_error :: "string \<Rightarrow> response" where
  "userpage_error e = reply 500 (Text (''An error occurred while saving user details: '' @ e))"

text \<open>\<open>new userdetail({ phone, ..., projects })\<close>, with the identifier the store assigns.\<close>

definition new_userdetail :: "nat \<Rightarrow> (string \<times> jsval) list \<Rightarrow> userdetail" where
  "new_userdetail i b =
     \<lparr> detail_id = i,
       phone = field b ''phone'',
       instagram = field b ''instagram'',
       twitter = field b ''twitter'',
       linkedIn = field b ''linkedIn'',
       github = field b ''github'',
       fullName = field b ''fullName'',
       detail_email = field b ''email'',
       campus = field b ''campus'',
       skills = field b ''skills'',
       detail_projects = field b ''projects'' \<rparr>"

text \<open>\<open>Object.assign(details, { phone, ..., projects })\<close>: nine keys, \<open>email\<close> is not one.\<close>

definition assign_userdetail :: "userdetail \<Rightarrow> (string \<times> jsval) list \<Rightarrow> userdetail" where
  "assign_userdetail details b =
     details\<lparr> phone := field b ''phone'',
              instagram := field b ''instagram'',
              twitter := field b ''twitter'',
              linkedIn := field b ''linkedIn'',
              github := field b ''github'',
              fullName := field b ''fullName'',
              campus := field b ''campus'',
              skills := field b ''skills'',
              detail_projects := field b ''projects'' \<rparr>"

definition post_userpage :: "deps \<Rightarrow> state \<Rightarrow> request \<Rightarrow> response \<times> state" where
  "post_userpage D st req =
     (let b = req_body req
      in case find (\<lambda>d. detail_email d = field b ''email'') (userdetails st) of
           None \<Rightarrow>
             (let details = new_userdetail (next_id st) b
              in if detail_valid D details
                 then (reply 200 (JsonDetail details),
                       st\<lparr> userdetails := userdetails st @ [details],
                           next_id := Suc (next_id st) \<rparr>)
                 else (userpage_error (detail_error D details), st))
         | Some found \<Rightarrow>
             (let details = assign_userdetail found b
              in if detail_valid D details
                 then (reply 200 (JsonDetail details),
                       st\<lparr> userdetails := save_detail details (userdetails st) \<rparr>)
                 else (userpage_error (detail_error D details), st)))"

subsection \<open>The catch-all \<open>GET *\<close> (lines 227--229)\<close>

definition get_catch_all :: "state \<Rightarrow> response \<times> state" where
  "get_catch_all st = (reply 200 (SendFile ''../FRONTEND/dist/index.html''), st)"

section \<open>The application: session middleware and routes\<close>

text \<open>
  Modelled from the spec: the session middleware (\<open>passport.session()\<close> with the
  \<open>deserializeUser\<close> of \<open>models/user.js\<close>), which is not among the sources. Section 4.3:
  a cookie that resolves to a live session referencing a principal yields that principal,
  without its secret fields; no cookie, or a cookie that does not resolve, yields none.
\<close>

definition resolvePrincipal :: "state \<Rightarrow> string \<Rightarrow> principal option" where
  "resolvePrincipal st t =
     (case map_of (sessions st) t of
        None \<Rightarrow> None
      | Some i \<Rightarrow> map_option strip (find (\<lambda>u. u_id u = i) (users st)))"

text \<open>
  Modelled from the spec: the session middleware at the head of every route, which is not
  among the sources. Section 4.3: it attaches the principal that the request's cookie
  resolves to, or none, to the request.
\<close>

definition passport_session :: "state \<Rightarrow> request \<Rightarrow> request" where
  "passport_session st req =
     req\<lparr> req_user := (case req_cookie req of
                          None \<Rightarrow> None
                        | Some t \<Rightarrow> resolvePrincipal st t) \<rparr>"

text \<open>The routes registered by \<open>app.js\<close>, in its order.\<close>

datatype route =
    GetHealth
  | PostSignup
  | PostLogin
  | PostClublogin
  | GetListings
  | GetClubpost
  | GetUserpage
  | GetPeople
  | GetUserdetails
  | PostMakeproj
  | PostClublisting
  | PostUserpage
  | GetCatchAll

fun dispatch :: "deps \<Rightarrow> route \<Rightarrow> state \<Rightarrow> request \<Rightarrow> response \<times> state" where
  "dispatch D GetHealth st req = get_health st"
| "dispatch D PostSignup st req = post_signup D st req"
| "dispatch D PostLogin st req = post_login D st req"
| "dispatch D PostClublogin st req = post_login D st req"
| "dispatch D GetListings st req = get_listings st"
| "dispatch D GetClubpost st req = get_clubpost st"
| "dispatch D GetUserpage st req = get_userpage D st req"
| "dispatch D GetPeople st req = get_people st"
| "dispatch D GetUserdetails st req = get_userdetails st req"
| "dispatch D PostMakeproj st req = post_makeproj D st req"
| "dispatch D PostClublisting st req = post_clublisting D st req"
| "dispatch D PostUserpage st req = post_userpage D st req"
| "dispatch D GetCatchAll st req = get_catch_all st"

definition app :: "deps \<Rightarrow> route \<Rightarrow> state \<Rightarrow> request \<Rightarrow> response \<times> state" where
  "app D r st req = dispatch D r st (passport_session st req)"

text \<open>The privileged routes: those that \<open>app.js\<close> registers behind \<open>isLoggedIn\<close>.\<close>

fun privileged :: "route \<Rightarrow> bool" where
  "privileged GetUserpage = True"
| "privileged PostMakeproj = True"
| "privileged r = False"

section \<open>The missing modules, after the specification\<close>

text \<open>
  Modelled from the spec: the response of the guard of \<open>./middleware\<close>, which is not among
  the sources. Sections 4.3 and 6: the guard fails with \<open>Unauthorized\<close>, an
  authorization-failure status.
\<close>

definition unauthorized :: response where
  "unauthorized = reply 401 (Text ''Unauthorized'')"

text \<open>
  Modelled from the spec: the guard \<open>isLoggedIn\<close> of \<open>./middleware\<close>, which is not among
  the sources. Section 4.3: \<open>requireAuthenticated()\<close> fails with \<open>Unauthorized\<close> on a
  request without a resolved principal and ends the request; with a resolved principal
  it succeeds and the handler runs.
\<close>

definition requireAuthenticated :: "request \<Rightarrow> response option" where
  "requireAuthenticated req =
     (case req_user req of None \<Rightarrow> Some unauthorized | Some p \<Rightarrow> None)"

text \<open>
  Modelled from the spec: the uniqueness check of \<open>User.register\<close> (\<open>models/user.js\<close>),
  which is not among the sources. Section 4.1: a candidate is rejected if its username or
  its email already exists.
\<close>

definition taken :: "user list \<Rightarrow> profile \<Rightarrow> bool" where
  "taken us c =
     list_ex (\<lambda>u. username (u_profile u) = username c \<or> email (u_profile u) = email c) us"

text \<open>
  Modelled from the spec: the required fields of the \<open>User\<close> schema (\<open>models/user.js\<close>),
  which is not among the sources. Section 6: all fields of a signup are required.
\<close>

definition incomplete :: "profile \<Rightarrow> jsval \<Rightarrow> bool" where
  "incomplete c pw =
     (firstname c = JUndefined \<or> lastname c = JUndefined \<or> username c = JUndefined
      \<or> email c = JUndefined \<or> campus1 c = JUndefined \<or> pw = JUndefined)"

text \<open>
  Modelled from the spec: \<open>User.register\<close> of \<open>models/user.js\<close>, which is not among the
  sources. Section 4.1: \<open>register\<close> rejects a candidate whose username or email already
  exists with \<open>DuplicateIdentity\<close>; section 6: all fields of a signup are required;
  otherwise it derives a salted hash of the password and stores hash and salt with the
  new principal. The hash function \<open>kdf\<close> and the salt generator \<open>gen_salt\<close> are
  parameters.
\<close>

definition spec_register ::
  "(jsval \<Rightarrow> string \<Rightarrow> string) \<Rightarrow> (nat \<Rightarrow> string) \<Rightarrow> state \<Rightarrow> profile \<Rightarrow> jsval \<Rightarrow> reg_error + state"
where
  "spec_register kdf gen_salt st c pw =
     (if taken (users st) c then Inl DuplicateIdentity
      else if incomplete c pw then Inl ValidationFailure
      else
        (let s = gen_salt (next_id st);
             u = \<lparr> u_id = next_id st, u_profile = c, hash = kdf pw s, salt = s \<rparr>
         in Inr (st\<lparr> users := users st @ [u], next_id := Suc (next_id st) \<rparr>)))"

text \<open>
  Modelled from the spec: the verify function \<open>User.authenticate()\<close> of \<open>models/user.js\<close>,
  which is not among the sources. Section 4.1: \<open>verify\<close> looks the username up, fails when
  it is absent, otherwise recomputes the hash with the stored salt and compares; success
  returns the principal without its secret fields.
\<close>

definition verify ::
  "(jsval \<Rightarrow> string \<Rightarrow> string) \<Rightarrow> user list \<Rightarrow> jsval \<Rightarrow> jsval \<Rightarrow> principal option"
where
  "verify kdf us name pw =
     (case find (\<lambda>u. username (u_profile u) = name) us of
        None \<Rightarrow> None
      | Some u \<Rightarrow> if kdf pw (salt u) = hash u then Some (strip u) else None)"

text \<open>
  A store with the secret material of every credential record blanked: two stores with
  the same \<open>scrub\<close> differ at most in password hashes and salts.
\<close>

definition scrub_user :: "user \<Rightarrow> user" where
  "scrub_user u = u\<lparr> hash := [], salt := [] \<rparr>"

definition scrub :: "state \<Rightarrow> state" where
  "scrub st = st\<lparr> users := map scrub_user (users st) \<rparr>"

text \<open>
  Modelled from the spec: the Anonymous state of section 4.3, in which the request carries
  no session cookie, or a cookie that does not resolve to a live session.
\<close>

definition anonymous :: "state \<Rightarrow> request \<Rightarrow> bool" where
  "anonymous st req =
     (case req_cookie req of None \<Rightarrow> True | Some t \<Rightarrow> resolvePrincipal st t = None)"

section \<open>A concrete store and concrete requests\<close>

text \<open>
  Two registered principals, a session for each, one profile record (Bob's), and schemas
  that accept every document.
\<close>

definition example_kdf :: "jsval \<Rightarrow> string \<Rightarrow> string" where
  "example_kdf pw s = (case pw of JStr p \<Rightarrow> s @ ''$'' @ p | _ \<Rightarrow> s)"

definition example_salt :: "nat \<Rightarrow> string" where
  "example_salt n = ''na'' @ replicate n (CHR ''x'')"

definition example_deps :: deps where
  "example_deps =
     \<lparr> isLoggedIn = requireAuthenticated,
       register = spec_register example_kdf example_salt,
       authenticate = verify example_kdf,
       auth_failure = (\<lambda>req. reply 401 (Text ''Unauthorized'')),
       new_token = (\<lambda>n. ''sid'' @ replicate n (CHR ''i'')),
       project_valid = (\<lambda>p. True),
       club_valid = (\<lambda>c. True),
       club_error = (\<lambda>c. ''ValidationError''),
       detail_valid = (\<lambda>d. True),
       detail_error = (\<lambda>d. ''ValidationError''),
       upload_error = reply 500 (Text ''MulterError: File too large'') \<rparr>"

definition alice :: user where
  "alice =
     \<lparr> u_id = 0,
       u_profile = \<lparr> firstname = JStr ''Alice'', lastname = JStr ''A'', username = JStr ''alice'',
                     email = JStr ''a@x.com'', campus1 = JStr ''North'' \<rparr>,
       hash = ''na$p1'', salt = ''na'' \<rparr>"

definition bob :: user where
  "bob =
     \<lparr> u_id = 1,
       u_profile = \<lparr> firstname = JStr ''Bob'', lastname = JStr ''B'', username = JStr ''bob'',
                     email = JStr ''b@x.com'', campus1 = JStr ''South'' \<rparr>,
       hash = ''nax$p2'', salt = ''nax'' \<rparr>"

definition bob_details :: userdetail where
  "bob_details =
     \<lparr> detail_id = 2, phone = JStr ''555'', instagram = JUndefined, twitter = JUndefined,
       linkedIn = JUndefined, github = JStr ''bob'', fullName = JStr ''Bob B'',
       detail_email = JStr ''b@x.com'', campus = JStr ''South'',
       skills = JArr [JStr ''c''], detail_projects = JArr [] \<rparr>"

definition example_state :: state where
  "example_state =
     \<lparr> users = [alice, bob],
       sessions = [(''tok-a'', 0), (''tok-b'', 1)],
       projects = [],
       clubs = [],
       userdetails = [bob_details],
       next_id = 3 \<rparr>"

definition example_request :: "string option \<Rightarrow> (string \<times> jsval) list \<Rightarrow> request" where
  "example_request c b =
     \<lparr> req_cookie = c, req_user = None, req_body = b, req_fullName = [],
       req_file = None, req_userDetails = None \<rparr>"

section \<open>The guard on privileged routes\<close>

lemma passport_session_anonymous:
  "anonymous st req \<Longrightarrow> req_user (passport_session st req) = None"
  by (simp add: anonymous_def passport_session_def split: option.splits)

text \<open>
  C1: a request to a privileged route (\<open>GET /userpage\<close>, \<open>POST /makeproj\<close>) that arrives
  in the Anonymous state is answered by the guard with \<open>Unauthorized\<close>, and the store is
  left as it was; in particular no project record is created.
\<close>

theorem anonymous_request_rejected:
  assumes "anonymous st req" and "privileged r"
  shows "app (D\<lparr> isLoggedIn := requireAuthenticated \<rparr>) r st req = (unauthorized, st)
         \<and> projects (snd (app (D\<lparr> isLoggedIn := requireAuthenticated \<rparr>) r st req))
             = projects st"
proof -
  have u: "req_user (passport_session st req) = None"
    using assms(1) by (rule passport_session_anonymous)
  have g: "requireAuthenticated (passport_session st req) = Some unauthorized"
    by (simp add: requireAuthenticated_def u)
  from assms(2) have "r = GetUserpage \<or> r = PostMakeproj"
    by (cases r) simp_all
  then have "app (D\<lparr> isLoggedIn := requireAuthenticated \<rparr>) r st req = (unauthorized, st)"
    by (auto simp: app_def get_userpage_def post_makeproj_def g)
  then show ?thesis by simp
qed

theorem anonymous_request_rejected_witness:
  "anonymous example_state (example_request (Some ''stale'') [(''name'', JStr ''x'')])
   \<and> privileged PostMakeproj
   \<and> app example_deps PostMakeproj example_state
        (example_request (Some ''stale'') [(''name'', JStr ''x'')])
       = (unauthorized, example_state)"
proof -
  have a: "anonymous example_state (example_request (Some ''stale'') [(''name'', JStr ''x'')])"
    by (simp add: anonymous_def example_request_def resolvePrincipal_def example_state_def)
  have d: "example_deps\<lparr> isLoggedIn := requireAuthenticated \<rparr> = example_deps"
    by (simp add: example_deps_def)
  show ?thesis
    using a anonymous_request_rejected [OF a, of PostMakeproj example_deps] by (simp add: d)
qed

section \<open>Project creation\<close>

text \<open>
  C2: when the guard lets a request with a resolved principal through and \<open>POST /makeproj\<close>
  creates a project, the new record's \<open>createdBy\<close> is the identifier of that principal,
  whatever the body holds; a request with the same body and another principal creates a
  record with another owner.
\<close>

theorem project_owner_is_session_principal:
  assumes "isLoggedIn D req = None" and "req_user req = Some p"
    and "post_makeproj D st req = (res, st')" and "status res = 200"
  shows "(\<exists>pr. projects st' = projects st @ [pr] \<and> createdBy pr = p_id p)
         \<and> (\<forall>req2 p2 res2 st2.
               isLoggedIn D req2 = None \<longrightarrow> req_user req2 = Some p2
               \<longrightarrow> req_body req2 = req_body req \<longrightarrow> p_id p2 \<noteq> p_id p
               \<longrightarrow> post_makeproj D st req2 = (res2, st2) \<longrightarrow> status res2 = 200
               \<longrightarrow> createdBy (last (projects st2)) \<noteq> createdBy (last (projects st')))"
  using assms
  by (auto simp: post_makeproj_def makeproj_handler_def Let_def makeproj_error_def json_def
           split: if_splits)

lemma alice_request:
  "passport_session example_state (example_request (Some ''tok-a'') b)
   = \<lparr> req_cookie = Some ''tok-a'', req_user = Some (strip alice), req_body = b,
       req_fullName = [], req_file = None, req_userDetails = None \<rparr>"
  by (simp add: passport_session_def example_request_def resolvePrincipal_def example_state_def
                alice_def bob_def)

theorem project_owner_is_session_principal_witness:
  "isLoggedIn example_deps
     (passport_session example_state (example_request (Some ''tok-a'') [(''name'', JStr ''n''), (''createdBy'', JNum 1)])) = None
   \<and> status (fst (post_makeproj example_deps example_state
        (passport_session example_state (example_request (Some ''tok-a'') [(''name'', JStr ''n''), (''createdBy'', JNum 1)])))) = 200
   \<and> (\<exists>pr. projects (snd (post_makeproj example_deps example_state
        (passport_session example_state (example_request (Some ''tok-a'') [(''name'', JStr ''n''), (''createdBy'', JNum 1)]))))
         = projects example_state @ [pr] \<and> createdBy pr = 0)"
proof -
  let ?rq = "passport_session example_state
               (example_request (Some ''tok-a'') [(''name'', JStr ''n''), (''createdBy'', JNum 1)])"
  have g: "isLoggedIn example_deps ?rq = None"
    by (simp add: alice_request example_deps_def requireAuthenticated_def)
  have u: "req_user ?rq = Some (strip alice)"
    by (simp add: alice_request)
  have v: "project_valid example_deps = (\<lambda>p. True)"
    by (simp add: example_deps_def)
  have s: "status (fst (post_makeproj example_deps example_state ?rq)) = 200"
    by (simp add: post_makeproj_def makeproj_handler_def g u v json_def Let_def)
  have i: "p_id (strip alice) = 0"
    by (simp add: strip_def alice_def)
  show ?thesis
    using g s i project_owner_is_session_principal [OF g u prod.collapse [symmetric] s] by simp
qed

section \<open>Reading the own profile\<close>

text \<open>
  C9: when the guard lets a request with a resolved principal through and no user-details
  record has the principal's email, \<open>GET /userpage\<close> answers with status 200 and the
  empty JSON object, and leaves the store as it was.
\<close>

theorem no_details_empty_object:
  assumes "isLoggedIn D req = None" and "req_user req = Some p"
    and "\<forall>d \<in> set (userdetails st). detail_email d \<noteq> email (p_profile p)"
  shows "get_userpage D st req = (json 200 (JObj []), st)
         \<and> status (fst (get_userpage D st req)) = 200
         \<and> content (fst (get_userpage D st req)) = Json (JObj [])"
proof -
  have "find (\<lambda>d. detail_email d = email (p_profile p)) (userdetails st) = None"
    using assms(3) by (simp add: find_None_iff)
  then have "get_userpage D st req = (json 200 (JObj []), st)"
    using assms(1,2) by (simp add: get_userpage_def getUserDetails_def)
  then show ?thesis by (simp add: json_def)
qed

theorem no_details_empty_object_witness:
  "isLoggedIn example_deps (passport_session example_state (example_request (Some ''tok-a'') [])) = None
   \<and> req_user (passport_session example_state (example_request (Some ''tok-a'') [])) = Some (strip alice)
   \<and> email (p_profile (strip alice)) \<notin> detail_email ` set (userdetails example_state)
   \<and> get_userpage example_deps example_state
        (passport_session example_state (example_request (Some ''tok-a'') []))
       = (json 200 (JObj []), example_state)"
proof -
  let ?rq = "passport_session example_state (example_request (Some ''tok-a'') [])"
  have g: "isLoggedIn example_deps ?rq = None"
    by (simp add: alice_request example_deps_def requireAuthenticated_def)
  have u: "req_user ?rq = Some (strip alice)"
    by (simp add: alice_request)
  have n: "\<forall>d \<in> set (userdetails example_state). detail_email d \<noteq> email (p_profile (strip alice))"
    by (simp add: example_state_def bob_details_def strip_def alice_def)
  have m: "email (p_profile (strip alice)) \<notin> detail_email ` set (userdetails example_state)"
    using n by auto
  show ?thesis
    using g u m no_details_empty_object [OF g u n] by simp
qed

section \<open>Submitting a profile\<close>

lemma post_userpage_body_only:
  "req_body req' = req_body req \<Longrightarrow> post_userpage D st req' = post_userpage D st req"
  by (simp add: post_userpage_def)

lemma find_Some_mem: "find P xs = Some x \<Longrightarrow> x \<in> set xs \<and> P x"
  by (auto simp: find_Some_iff)

lemma save_detail_mem:
  "x \<in> set ds \<Longrightarrow> detail_id x = detail_id d \<Longrightarrow> d \<in> set (save_detail d ds)"
  by (auto simp: save_detail_def)

lemma save_detail_same_id:
  "y \<in> set (save_detail d ds) \<Longrightarrow> detail_id y = detail_id d \<Longrightarrow> y = d"
  by (auto simp: save_detail_def split: if_splits)

lemma assign_userdetail_id [simp]: "detail_id (assign_userdetail d b) = detail_id d"
  by (simp add: assign_userdetail_def)

lemma assign_userdetail_email [simp]: "detail_email (assign_userdetail d b) = detail_email d"
  by (simp add: assign_userdetail_def)

lemma new_userdetail_fields:
  "detail_id (new_userdetail i b) = i"
  "detail_email (new_userdetail i b) = field b ''email''"
  "phone (new_userdetail i b) = field b ''phone''"
  "instagram (new_userdetail i b) = field b ''instagram''"
  "twitter (new_userdetail i b) = field b ''twitter''"
  "linkedIn (new_userdetail i b) = field b ''linkedIn''"
  "github (new_userdetail i b) = field b ''github''"
  "fullName (new_userdetail i b) = field b ''fullName''"
  "campus (new_userdetail i b) = field b ''campus''"
  "skills (new_userdetail i b) = field b ''skills''"
  "detail_projects (new_userdetail i b) = field b ''projects''"
  by (simp_all add: new_userdetail_def)

lemma assign_userdetail_fields:
  "phone (assign_userdetail d b) = field b ''phone''"
  "instagram (assign_userdetail d b) = field b ''instagram''"
  "twitter (assign_userdetail d b) = field b ''twitter''"
  "linkedIn (assign_userdetail d b) = field b ''linkedIn''"
  "github (assign_userdetail d b) = field b ''github''"
  "fullName (assign_userdetail d b) = field b ''fullName''"
  "campus (assign_userdetail d b) = field b ''campus''"
  "skills (assign_userdetail d b) = field b ''skills''"
  "detail_projects (assign_userdetail d b) = field b ''projects''"
  by (simp_all add: assign_userdetail_def)

text \<open>
  C3: \<open>POST /userpage\<close> is registered without a guard and never reads the session: its
  outcome depends on the body alone. A request without a principal whose body carries the
  email of an existing record overwrites that record: the record saved in its place keeps
  the identifier, has the body's email and takes the nine other fields from the body. A
  request without a principal whose email matches no record creates one record, under
  the body's email and with the body's fields.
\<close>

theorem userpage_write_unauthenticated:
  "(req_body req' = req_body req \<longrightarrow> dispatch D PostUserpage st req' = dispatch D PostUserpage st req)
   \<and> (req_user req = None
        \<longrightarrow> find (\<lambda>d. detail_email d = field (req_body req) ''email'') (userdetails st) = Some victim
        \<longrightarrow> detail_valid D (assign_userdetail victim (req_body req))
        \<longrightarrow> status (fst (dispatch D PostUserpage st req)) = 200
            \<and> assign_userdetail victim (req_body req)
                 \<in> set (userdetails (snd (dispatch D PostUserpage st req)))
            \<and> (\<forall>y \<in> set (userdetails (snd (dispatch D PostUserpage st req))).
                  detail_id y = detail_id victim
                  \<longrightarrow> y = assign_userdetail victim (req_body req))
            \<and> (\<exists>d. content (fst (dispatch D PostUserpage st req)) = JsonDetail d
                   \<and> d \<in> set (userdetails (snd (dispatch D PostUserpage st req)))
                   \<and> (\<forall>y \<in> set (userdetails (snd (dispatch D PostUserpage st req))).
                         detail_id y = detail_id victim \<longrightarrow> y = d)
                   \<and> detail_id d = detail_id victim
                   \<and> detail_email d = field (req_body req) ''email''
                   \<and> phone d = field (req_body req) ''phone''
                   \<and> instagram d = field (req_body req) ''instagram''
                   \<and> twitter d = field (req_body req) ''twitter''
                   \<and> linkedIn d = field (req_body req) ''linkedIn''
                   \<and> github d = field (req_body req) ''github''
                   \<and> fullName d = field (req_body req) ''fullName''
                   \<and> campus d = field (req_body req) ''campus''
                   \<and> skills d = field (req_body req) ''skills''
                   \<and> detail_projects d = field (req_body req) ''projects''))
   \<and> (req_user req = None
        \<longrightarrow> find (\<lambda>d. detail_email d = field (req_body req) ''email'') (userdetails st) = None
        \<longrightarrow> detail_valid D (new_userdetail (next_id st) (req_body req))
        \<longrightarrow> userdetails (snd (dispatch D PostUserpage st req))
             = userdetails st @ [new_userdetail (next_id st) (req_body req)]
          \<and> status (fst (dispatch D PostUserpage st req)) = 200
          \<and> (\<exists>d. content (fst (dispatch D PostUserpage st req)) = JsonDetail d
                 \<and> userdetails (snd (dispatch D PostUserpage st req)) = userdetails st @ [d]
                 \<and> detail_id d = next_id st
                 \<and> detail_email d = field (req_body req) ''email''
                 \<and> phone d = field (req_body req) ''phone''
                 \<and> instagram d = field (req_body req) ''instagram''
                 \<and> twitter d = field (req_body req) ''twitter''
                 \<and> linkedIn d = field (req_body req) ''linkedIn''
                 \<and> github d = field (req_body req) ''github''
                 \<and> fullName d = field (req_body req) ''fullName''
                 \<and> campus d = field (req_body req) ''campus''
                 \<and> skills d = field (req_body req) ''skills''
                 \<and> detail_projects d = field (req_body req) ''projects''))"
proof (intro conjI impI)
  assume "req_body req' = req_body req"
  then show "dispatch D PostUserpage st req' = dispatch D PostUserpage st req"
    by (simp add: post_userpage_body_only [of req' req])
next
  let ?d = "assign_userdetail victim (req_body req)"
  assume f: "find (\<lambda>d. detail_email d = field (req_body req) ''email'') (userdetails st) = Some victim"
    and v: "detail_valid D (assign_userdetail victim (req_body req))"
  have r: "post_userpage D st req
           = (reply 200 (JsonDetail ?d), st\<lparr> userdetails := save_detail ?d (userdetails st) \<rparr>)"
    using f v by (simp add: post_userpage_def Let_def)
  show 1: "status (fst (dispatch D PostUserpage st req)) = 200"
    by (simp add: r reply_def)
  have m: "victim \<in> set (userdetails st)" and e: "detail_email victim = field (req_body req) ''email''"
    using find_Some_mem [OF f] by simp_all
  show 2: "?d \<in> set (userdetails (snd (dispatch D PostUserpage st req)))"
    using save_detail_mem [OF m, of ?d] by (simp add: r)
  show 3: "\<forall>y \<in> set (userdetails (snd (dispatch D PostUserpage st req))).
          detail_id y = detail_id victim \<longrightarrow> y = ?d"
    using save_detail_same_id [of _ ?d "userdetails st"]
    by (simp add: r)
  have 4: "content (fst (dispatch D PostUserpage st req)) = JsonDetail ?d"
    by (simp add: r reply_def)
  have 5: "detail_id ?d = detail_id victim" "detail_email ?d = field (req_body req) ''email''"
    by (simp_all add: e)
  show "\<exists>d. content (fst (dispatch D PostUserpage st req)) = JsonDetail d
           \<and> d \<in> set (userdetails (snd (dispatch D PostUserpage st req)))
           \<and> (\<forall>y \<in> set (userdetails (snd (dispatch D PostUserpage st req))).
                 detail_id y = detail_id victim \<longrightarrow> y = d)
           \<and> detail_id d = detail_id victim
           \<and> detail_email d = field (req_body req) ''email''
           \<and> phone d = field (req_body req) ''phone''
           \<and> instagram d = field (req_body req) ''instagram''
           \<and> twitter d = field (req_body req) ''twitter''
           \<and> linkedIn d = field (req_body req) ''linkedIn''
           \<and> github d = field (req_body req) ''github''
           \<and> fullName d = field (req_body req) ''fullName''
           \<and> campus d = field (req_body req) ''campus''
           \<and> skills d = field (req_body req) ''skills''
           \<and> detail_projects d = field (req_body req) ''projects''"
    by (intro exI [of _ ?d] conjI)
       (fact 2 3 4 5 assign_userdetail_fields [of victim "req_body req"])+
next
  let ?d = "new_userdetail (next_id st) (req_body req)"
  assume n: "find (\<lambda>d. detail_email d = field (req_body req) ''email'') (userdetails st) = None"
    and v: "detail_valid D (new_userdetail (next_id st) (req_body req))"
  have r: "post_userpage D st req
           = (reply 200 (JsonDetail ?d),
              st\<lparr> userdetails := userdetails st @ [?d], next_id := Suc (next_id st) \<rparr>)"
    using n v by (simp add: post_userpage_def Let_def)
  show 1: "userdetails (snd (dispatch D PostUserpage st req)) = userdetails st @ [?d]"
    by (simp add: r)
  show "status (fst (dispatch D PostUserpage st req)) = 200"
    by (simp add: r reply_def)
  have 2: "content (fst (dispatch D PostUserpage st req)) = JsonDetail ?d"
    by (simp add: r reply_def)
  show "\<exists>d. content (fst (dispatch D PostUserpage st req)) = JsonDetail d
           \<and> userdetails (snd (dispatch D PostUserpage st req)) = userdetails st @ [d]
           \<and> detail_id d = next_id st
           \<and> detail_email d = field (req_body req) ''email''
           \<and> phone d = field (req_body req) ''phone''
           \<and> instagram d = field (req_body req) ''instagram''
           \<and> twitter d = field (req_body req) ''twitter''
           \<and> linkedIn d = field (req_body req) ''linkedIn''
           \<and> github d = field (req_body req) ''github''
           \<and> fullName d = field (req_body req) ''fullName''
           \<and> campus d = field (req_body req) ''campus''
           \<and> skills d = field (req_body req) ''skills''
           \<and> detail_projects d = field (req_body req) ''projects''"
    by (intro exI [of _ ?d] conjI)
       (fact 1 2 new_userdetail_fields [of "next_id st" "req_body req"])+
qed

theorem userpage_write_unauthenticated_witness:
  "req_user (example_request None [(''email'', JStr ''b@x.com''), (''phone'', JStr ''000'')])
     = None
   \<and> find (\<lambda>d. detail_email d
                 = field [(''email'', JStr ''b@x.com''), (''phone'', JStr ''000'')] ''email'')
        (userdetails example_state) = Some bob_details
   \<and> phone bob_details = JStr ''555''
   \<and> phone (assign_userdetail bob_details
               [(''email'', JStr ''b@x.com''), (''phone'', JStr ''000'')]) = JStr ''000''
   \<and> assign_userdetail bob_details [(''email'', JStr ''b@x.com''), (''phone'', JStr ''000'')]
        \<in> set (userdetails (snd (dispatch example_deps PostUserpage example_state
              (example_request None [(''email'', JStr ''b@x.com''), (''phone'', JStr ''000'')]))))
   \<and> map detail_email (userdetails (snd (dispatch example_deps PostUserpage example_state
              (example_request None [(''email'', JStr ''b@x.com''), (''phone'', JStr ''000'')]))))
       = [JStr ''b@x.com'']
   \<and> map phone (userdetails (snd (dispatch example_deps PostUserpage example_state
              (example_request None [(''email'', JStr ''b@x.com''), (''phone'', JStr ''000'')]))))
       = [JStr ''000'']
   \<and> req_user (example_request None [(''email'', JStr ''c@x.com''), (''phone'', JStr ''111'')])
       = None
   \<and> find (\<lambda>d. detail_email d
                 = field [(''email'', JStr ''c@x.com''), (''phone'', JStr ''111'')] ''email'')
        (userdetails example_state) = None
   \<and> map detail_email (userdetails (snd (dispatch example_deps PostUserpage example_state
              (example_request None [(''email'', JStr ''c@x.com''), (''phone'', JStr ''111'')]))))
       = [JStr ''b@x.com'', JStr ''c@x.com'']
   \<and> map phone (userdetails (snd (dispatch example_deps PostUserpage example_state
              (example_request None [(''email'', JStr ''c@x.com''), (''phone'', JStr ''111'')]))))
       = [JStr ''555'', JStr ''111'']"
proof -
  let ?b = "[(''email'', JStr ''b@x.com''), (''phone'', JStr ''000'')]"
  let ?rq = "example_request None ?b"
  let ?c = "[(''email'', JStr ''c@x.com''), (''phone'', JStr ''111'')]"
  let ?rc = "example_request None ?c"
  have a: "req_user ?rq = None" "req_user ?rc = None"
    by (simp_all add: example_request_def)
  have b: "req_body ?rq = ?b" "req_body ?rc = ?c"
    by (simp_all add: example_request_def)
  have fb: "field ?b ''email'' = JStr ''b@x.com''" "field ?b ''phone'' = JStr ''000''"
    "field ?c ''email'' = JStr ''c@x.com''" "field ?c ''phone'' = JStr ''111''"
    by (simp_all add: field_def)
  have ds: "userdetails example_state = [bob_details]"
    by (simp add: example_state_def)
  have bd: "detail_email bob_details = JStr ''b@x.com''" "phone bob_details = JStr ''555''"
    by (simp_all add: bob_details_def)
  have f: "find (\<lambda>d. detail_email d = field (req_body ?rq) ''email'') (userdetails example_state)
           = Some bob_details"
    by (simp add: b fb ds bd)
  have n: "find (\<lambda>d. detail_email d = field (req_body ?rc) ''email'') (userdetails example_state)
           = None"
    by (simp add: b fb ds bd)
  have v: "detail_valid example_deps (assign_userdetail bob_details (req_body ?rq))"
    "detail_valid example_deps (new_userdetail (next_id example_state) (req_body ?rc))"
    by (simp_all add: example_deps_def)
  have p: "phone (assign_userdetail bob_details ?b) = JStr ''000''"
    by (simp add: assign_userdetail_def fb)
  note over = userpage_write_unauthenticated
            [where req = ?rq and req' = ?rq and D = example_deps and st = example_state
               and victim = bob_details, THEN conjunct2, THEN conjunct1, rule_format,
             OF a(1) f v(1)]
  note create = userpage_write_unauthenticated
            [where req = ?rc and req' = ?rc and D = example_deps and st = example_state
               and victim = bob_details, THEN conjunct2, THEN conjunct2, rule_format,
             OF a(2) n v(2)]
  have m: "assign_userdetail bob_details (req_body ?rq)
          \<in> set (userdetails (snd (dispatch example_deps PostUserpage example_state ?rq)))"
    using over by blast
  obtain d where d: "d \<in> set (userdetails (snd (dispatch example_deps PostUserpage example_state ?rq)))"
      "\<forall>y \<in> set (userdetails (snd (dispatch example_deps PostUserpage example_state ?rq))).
          detail_id y = detail_id bob_details \<longrightarrow> y = d"
      "detail_email d = field (req_body ?rq) ''email''" "phone d = field (req_body ?rq) ''phone''"
    using over by blast
  have l: "userdetails (snd (post_userpage example_deps example_state ?rq))
           = [assign_userdetail bob_details (req_body ?rq)]"
    using f v(1) by (simp add: post_userpage_def Let_def ds save_detail_def)
  have "userdetails (snd (dispatch example_deps PostUserpage example_state ?rq)) = [d]"
    using d(1) by (simp add: l)
  then have o: "map detail_email (userdetails (snd (dispatch example_deps PostUserpage example_state ?rq)))
                = [JStr ''b@x.com'']"
      "map phone (userdetails (snd (dispatch example_deps PostUserpage example_state ?rq)))
                = [JStr ''000'']"
    using d(3,4) by (simp_all add: b fb)
  obtain e where e: "userdetails (snd (dispatch example_deps PostUserpage example_state ?rc))
                     = userdetails example_state @ [e]"
      "detail_email e = field (req_body ?rc) ''email''" "phone e = field (req_body ?rc) ''phone''"
    using create by blast
  have c: "map detail_email (userdetails (snd (dispatch example_deps PostUserpage example_state ?rc)))
           = [JStr ''b@x.com'', JStr ''c@x.com'']"
      "map phone (userdetails (snd (dispatch example_deps PostUserpage example_state ?rc)))
           = [JStr ''555'', JStr ''111'']"
    using e by (simp_all add: ds bd b fb)
  have f': "find (\<lambda>d. detail_email d = field ?b ''email'') (userdetails example_state)
            = Some bob_details"
    using f by (simp only: b)
  have n': "find (\<lambda>d. detail_email d = field ?c ''email'') (userdetails example_state) = None"
    using n by (simp only: b)
  have m': "assign_userdetail bob_details ?b
            \<in> set (userdetails (snd (dispatch example_deps PostUserpage example_state ?rq)))"
    using m by (simp only: b)
  show ?thesis
    by (intro conjI) (fact a f' bd(2) p m' o n' c)+
qed

lemma save_detail_emails:
  assumes "\<forall>x \<in> set ds. detail_id x = detail_id d \<longrightarrow> detail_email x = detail_email d"
  shows "map detail_email (save_detail d ds) = map detail_email ds"
  using assms by (induction ds) (auto simp: save_detail_def)

text \<open>
  C10: when \<open>POST /userpage\<close> finds a record with the supplied email, the record it saves
  keeps the identifier and the email of the record found and takes \<open>phone\<close>, \<open>instagram\<close>,
  \<open>twitter\<close>, \<open>linkedIn\<close>, \<open>github\<close>, \<open>fullName\<close>, \<open>campus\<close>, \<open>skills\<close> and \<open>projects\<close>
  from the body; when the save is refused the store is unchanged. Where identifiers are
  unique, the emails of all records are the same before and after.
\<close>

theorem userpage_update_keeps_email:
  assumes "find (\<lambda>d. detail_email d = field (req_body req) ''email'') (userdetails st) = Some found"
    and "post_userpage D st req = (res, st')"
  shows "(status res = 200 \<longrightarrow>
            (\<exists>d'. content res = JsonDetail d'
                 \<and> userdetails st' = save_detail d' (userdetails st)
                 \<and> detail_id d' = detail_id found
                 \<and> detail_email d' = detail_email found
                 \<and> phone d' = field (req_body req) ''phone''
                 \<and> instagram d' = field (req_body req) ''instagram''
                 \<and> twitter d' = field (req_body req) ''twitter''
                 \<and> linkedIn d' = field (req_body req) ''linkedIn''
                 \<and> github d' = field (req_body req) ''github''
                 \<and> fullName d' = field (req_body req) ''fullName''
                 \<and> campus d' = field (req_body req) ''campus''
                 \<and> skills d' = field (req_body req) ''skills''
                 \<and> detail_projects d' = field (req_body req) ''projects''))
         \<and> (status res \<noteq> 200 \<longrightarrow> st' = st)
         \<and> ((\<forall>x \<in> set (userdetails st). detail_id x = detail_id found \<longrightarrow> x = found)
              \<longrightarrow> map detail_email (userdetails st') = map detail_email (userdetails st))"
proof (cases "detail_valid D (assign_userdetail found (req_body req))")
  case True
  then have r: "res = reply 200 (JsonDetail (assign_userdetail found (req_body req)))"
    and s: "st' = st\<lparr> userdetails := save_detail (assign_userdetail found (req_body req)) (userdetails st) \<rparr>"
    using assms by (simp_all add: post_userpage_def Let_def)
  have e: "(\<forall>x \<in> set (userdetails st). detail_id x = detail_id found \<longrightarrow> x = found)
           \<Longrightarrow> map detail_email (userdetails st') = map detail_email (userdetails st)"
    unfolding s by (simp, rule save_detail_emails) auto
  have f: "phone (assign_userdetail found (req_body req)) = field (req_body req) ''phone''"
    "instagram (assign_userdetail found (req_body req)) = field (req_body req) ''instagram''"
    "twitter (assign_userdetail found (req_body req)) = field (req_body req) ''twitter''"
    "linkedIn (assign_userdetail found (req_body req)) = field (req_body req) ''linkedIn''"
    "github (assign_userdetail found (req_body req)) = field (req_body req) ''github''"
    "fullName (assign_userdetail found (req_body req)) = field (req_body req) ''fullName''"
    "campus (assign_userdetail found (req_body req)) = field (req_body req) ''campus''"
    "skills (assign_userdetail found (req_body req)) = field (req_body req) ''skills''"
    "detail_projects (assign_userdetail found (req_body req)) = field (req_body req) ''projects''"
    by (simp_all add: assign_userdetail_def)
  have c: "content res = JsonDetail (assign_userdetail found (req_body req))" "status res = 200"
    by (simp_all add: r reply_def)
  have u: "userdetails st' = save_detail (assign_userdetail found (req_body req)) (userdetails st)"
    by (simp add: s)
  show ?thesis
    using e c u f by simp
next
  case False
  then have "st' = st" and "status res = 500"
    using assms by (auto simp: post_userpage_def userpage_error_def reply_def Let_def)
  then show ?thesis by simp
qed

theorem userpage_update_keeps_email_witness:
  "find (\<lambda>d. detail_email d = field [(''email'', JStr ''b@x.com''), (''phone'', JStr ''000'')] ''email'')
        (userdetails example_state) = Some bob_details
   \<and> status (fst (post_userpage example_deps example_state
        (example_request None [(''email'', JStr ''b@x.com''), (''phone'', JStr ''000'')]))) = 200
   \<and> map detail_email (userdetails (snd (post_userpage example_deps example_state
        (example_request None [(''email'', JStr ''b@x.com''), (''phone'', JStr ''000'')]))))
       = [JStr ''b@x.com'']"
proof -
  let ?b = "[(''email'', JStr ''b@x.com''), (''phone'', JStr ''000'')]"
  let ?rq = "example_request None ?b"
  have b: "req_body ?rq = ?b"
    by (simp add: example_request_def)
  have f: "find (\<lambda>d. detail_email d = field (req_body ?rq) ''email'') (userdetails example_state)
           = Some bob_details"
    by (simp add: b field_def example_state_def bob_details_def)
  have s: "status (fst (post_userpage example_deps example_state ?rq)) = 200"
    using f by (simp add: post_userpage_def Let_def example_deps_def reply_def)
  have d: "\<forall>x \<in> set (userdetails example_state). detail_id x = detail_id bob_details \<longrightarrow> x = bob_details"
    by (simp add: example_state_def)
  have e: "map detail_email (userdetails example_state) = [JStr ''b@x.com'']"
    by (simp add: example_state_def bob_details_def)
  show ?thesis
    using f s d e userpage_update_keeps_email [OF f prod.collapse [symmetric]] by (simp add: b)
qed


section \<open>Registration\<close>


lemma example_register:
  "example_deps\<lparr> register := spec_register example_kdf example_salt \<rparr> = example_deps"
  by (simp add: example_deps_def)


text \<open>
  C6, as stated, at a concrete payload: a signup that carries all six fields under the
  names \<open>firstname\<close>, \<open>lastname\<close>, \<open>username\<close>, \<open>email\<close>, \<open>password\<close>, \<open>campus\<close> is answered
  with the failure status, since the handler reads the campus from the key \<open>campus1\<close>.
\<close>

theorem signup_campus_counterexample:
  "post_signup example_deps example_state
     (example_request None
        [(''firstname'', JStr ''Carol''), (''lastname'', JStr ''C''), (''username'', JStr ''carol''),
         (''email'', JStr ''c@x.com''), (''password'', JStr ''p3''), (''campus'', JStr ''North'')])
   = (signup_error, example_state)
   \<and> status signup_error = 500
   \<and> signup_error \<noteq> signup_ok"
  by (simp add: post_signup_def example_request_def field_def signup_error_def signup_ok_def
                json_def)

text \<open>
  C6, amended: the campus is read from the body's key \<open>campus1\<close>. A signup whose
  \<open>campus1\<close> is missing or falsy is answered with the generic failure status and creates
  no user, whatever registration does; with registration as the specification describes
  it, a signup missing any of \<open>firstname\<close>, \<open>lastname\<close>, \<open>username\<close>, \<open>email\<close>, \<open>password\<close>,
  \<open>campus1\<close> fails the same way, and a complete one with a username and email not yet in
  use answers \<open>status: success\<close> and stores one user.
\<close>

theorem signup_required_fields:
  "(\<not> truthy (field (req_body req) ''campus1'') \<longrightarrow> post_signup D st req = (signup_error, st))
   \<and> (incomplete (newUser (req_body req)) (field (req_body req) ''password'')
        \<longrightarrow> post_signup (D\<lparr> register := spec_register kdf gs \<rparr>) st req = (signup_error, st))
   \<and> (truthy (field (req_body req) ''campus1'')
        \<longrightarrow> \<not> incomplete (newUser (req_body req)) (field (req_body req) ''password'')
        \<longrightarrow> \<not> taken (users st) (newUser (req_body req))
        \<longrightarrow> fst (post_signup (D\<lparr> register := spec_register kdf gs \<rparr>) st req) = signup_ok
          \<and> length (users (snd (post_signup (D\<lparr> register := spec_register kdf gs \<rparr>) st req)))
              = Suc (length (users st)))"
  by (auto simp: post_signup_def Let_def spec_register_def split: sum.splits)

theorem signup_required_fields_witness:
  "truthy (field [(''firstname'', JStr ''Carol''), (''lastname'', JStr ''C''),
                  (''username'', JStr ''carol''), (''email'', JStr ''c@x.com''),
                  (''password'', JStr ''p3''), (''campus1'', JStr ''North'')] ''campus1'')
   \<and> fst (post_signup example_deps example_state
        (example_request None
           [(''firstname'', JStr ''Carol''), (''lastname'', JStr ''C''),
            (''username'', JStr ''carol''), (''email'', JStr ''c@x.com''),
            (''password'', JStr ''p3''), (''campus1'', JStr ''North'')])) = signup_ok
   \<and> length (users (snd (post_signup example_deps example_state
        (example_request None
           [(''firstname'', JStr ''Carol''), (''lastname'', JStr ''C''),
            (''username'', JStr ''carol''), (''email'', JStr ''c@x.com''),
            (''password'', JStr ''p3''), (''campus1'', JStr ''North'')])))) = 3"
proof -
  let ?b = "[(''firstname'', JStr ''Carol''), (''lastname'', JStr ''C''),
             (''username'', JStr ''carol''), (''email'', JStr ''c@x.com''),
             (''password'', JStr ''p3''), (''campus1'', JStr ''North'')]"
  let ?rq = "example_request None ?b"
  have b: "req_body ?rq = ?b"
    by (simp add: example_request_def)
  have c: "truthy (field (req_body ?rq) ''campus1'')"
    by (simp add: b field_def)
  have i: "\<not> incomplete (newUser (req_body ?rq)) (field (req_body ?rq) ''password'')"
    by (simp add: b incomplete_def newUser_def field_def)
  have t: "\<not> taken (users example_state) (newUser (req_body ?rq))"
    by (simp add: b taken_def newUser_def field_def example_state_def alice_def bob_def)
  have l: "length (users example_state) = 2"
    by (simp add: example_state_def)
  show ?thesis
    using c i t l signup_required_fields
            [where st = example_state and req = ?rq and D = example_deps
               and kdf = example_kdf and gs = example_salt]
    by (simp add: b example_register)
qed

section \<open>Secrets and responses\<close>

lemma scrub_fields:
  assumes "scrub s = scrub s'"
  shows "projects s = projects s'" "clubs s = clubs s'" "userdetails s = userdetails s'"
    "sessions s = sessions s'" "next_id s = next_id s'"
    "map scrub_user (users s) = map scrub_user (users s')"
proof -
  have "projects (scrub s) = projects (scrub s')" "clubs (scrub s) = clubs (scrub s')"
    "userdetails (scrub s) = userdetails (scrub s')" "sessions (scrub s) = sessions (scrub s')"
    "next_id (scrub s) = next_id (scrub s')" "users (scrub s) = users (scrub s')"
    using assms by simp_all
  then show "projects s = projects s'" "clubs s = clubs s'" "userdetails s = userdetails s'"
    "sessions s = sessions s'" "next_id s = next_id s'"
    "map scrub_user (users s) = map scrub_user (users s')"
    by (simp_all add: scrub_def)
qed

lemma scrub_eqI:
  assumes "projects s = projects s'" "clubs s = clubs s'" "userdetails s = userdetails s'"
    "sessions s = sessions s'" "next_id s = next_id s'"
    "map scrub_user (users s) = map scrub_user (users s')"
  shows "scrub s = scrub s'"
  using assms by (cases s, cases s') (simp add: scrub_def)

lemma scrubbed_find:
  "map scrub_user us = map scrub_user us'
   \<Longrightarrow> map_option strip (find (\<lambda>u. u_id u = i) us) = map_option strip (find (\<lambda>u. u_id u = i) us')"
proof (induction us arbitrary: us')
  case Nil
  then show ?case by simp
next
  case (Cons u us)
  then obtain v vs where v: "us' = v # vs" "scrub_user u = scrub_user v"
    "map scrub_user us = map scrub_user vs"
    by (cases us') auto
  from v(2) have "u_id u = u_id v" "u_profile u = u_profile v"
    by (cases u, cases v, simp add: scrub_user_def)+
  then show ?case
    using Cons.IH [OF v(3)] v(1) by (simp add: strip_def)
qed

lemma scrubbed_taken:
  "map scrub_user us = map scrub_user us' \<Longrightarrow> taken us c = taken us' c"
proof (induction us arbitrary: us')
  case Nil
  then show ?case by (simp add: taken_def)
next
  case (Cons u us)
  then obtain v vs where v: "us' = v # vs" "scrub_user u = scrub_user v"
    "map scrub_user us = map scrub_user vs"
    by (cases us') auto
  from v(2) have "u_profile u = u_profile v"
    by (cases u, cases v, simp add: scrub_user_def)
  then show ?case
    using Cons.IH [OF v(3)] v(1) by (simp add: taken_def)
qed

lemma scrubbed_session:
  assumes "scrub s = scrub s'"
  shows "passport_session s req = passport_session s' req"
proof -
  have "resolvePrincipal s t = resolvePrincipal s' t" for t
    using scrub_fields(4,6) [OF assms] scrubbed_find [of "users s" "users s'"]
    by (simp add: resolvePrincipal_def split: option.splits)
  then show ?thesis
    by (cases "req_cookie req") (simp_all add: passport_session_def)
qed

lemma scrubbed_signup:
  assumes "scrub s = scrub s'"
  shows "fst (post_signup (D\<lparr> register := spec_register kdf gs \<rparr>) s req)
         = fst (post_signup (D\<lparr> register := spec_register kdf gs \<rparr>) s' req)
       \<and> scrub (snd (post_signup (D\<lparr> register := spec_register kdf gs \<rparr>) s req))
         = scrub (snd (post_signup (D\<lparr> register := spec_register kdf gs \<rparr>) s' req))"
proof -
  note f = scrub_fields [OF assms]
  have t: "taken (users s) c = taken (users s') c" for c
    using f(6) by (rule scrubbed_taken)
  show ?thesis
    using assms f
    by (auto simp: post_signup_def Let_def spec_register_def t scrub_user_def intro!: scrub_eqI)
qed

lemma scrubbed_makeproj:
  assumes "scrub s = scrub s'"
  shows "fst (post_makeproj D s req) = fst (post_makeproj D s' req)
       \<and> scrub (snd (post_makeproj D s req)) = scrub (snd (post_makeproj D s' req))"
  using assms scrub_fields [OF assms]
  by (auto simp: post_makeproj_def makeproj_handler_def Let_def split: option.splits
           intro!: scrub_eqI)

lemma scrubbed_clublisting:
  assumes "scrub s = scrub s'"
  shows "fst (post_clublisting D s req) = fst (post_clublisting D s' req)
       \<and> scrub (snd (post_clublisting D s req)) = scrub (snd (post_clublisting D s' req))"
  using assms scrub_fields [OF assms]
  by (auto simp: post_clublisting_def Let_def intro!: scrub_eqI)

lemma scrubbed_userpage:
  assumes "scrub s = scrub s'"
  shows "fst (post_userpage D s req) = fst (post_userpage D s' req)
       \<and> scrub (snd (post_userpage D s req)) = scrub (snd (post_userpage D s' req))"
  using assms scrub_fields [OF assms]
  by (auto simp: post_userpage_def Let_def split: option.splits intro!: scrub_eqI)

lemma scrubbed_get_userpage:
  assumes "scrub s = scrub s'"
  shows "fst (get_userpage D s req) = fst (get_userpage D s' req)
       \<and> scrub (snd (get_userpage D s req)) = scrub (snd (get_userpage D s' req))"
  using assms scrub_fields [OF assms]
  by (auto simp: get_userpage_def getUserDetails_def split: option.splits)

lemma scrubbed_reads:
  assumes "scrub s = scrub s'"
  shows "fst (get_listings s) = fst (get_listings s')" "scrub (snd (get_listings s)) = scrub (snd (get_listings s'))"
    "fst (get_clubpost s) = fst (get_clubpost s')" "scrub (snd (get_clubpost s)) = scrub (snd (get_clubpost s'))"
    "fst (get_people s) = fst (get_people s')" "scrub (snd (get_people s)) = scrub (snd (get_people s'))"
    "fst (get_userdetails s req) = fst (get_userdetails s' req)"
    "scrub (snd (get_userdetails s req)) = scrub (snd (get_userdetails s' req))"
    "fst (get_health s) = fst (get_health s')" "scrub (snd (get_health s)) = scrub (snd (get_health s'))"
    "fst (get_catch_all s) = fst (get_catch_all s')" "scrub (snd (get_catch_all s)) = scrub (snd (get_catch_all s'))"
  using assms scrub_fields [OF assms]
  by (auto simp: get_listings_def get_clubpost_def get_people_def get_userdetails_def
                 get_health_def get_catch_all_def split: option.splits)

lemma signup_shape: "fst (post_signup D st req) = signup_ok \<or> fst (post_signup D st req) = signup_error"
  by (simp add: post_signup_def Let_def split: sum.splits)

lemma login_shape:
  "fst (post_login D st req) = auth_failure D req
   \<or> fst (post_login D st req) = login_ok (new_token D (next_id st))"
  by (simp add: post_login_def Let_def split: option.splits)

text \<open>
  C7: no response carries secret material. For every route but the two logins, two stores
  that differ only in password hashes and salts give the same response and stores that
  again differ only there; a login answers with the failure response of the
  authentication middleware or with the success body and a new session token, both fixed
  by the request and the non-secret part of the store. A signup answers with one of two
  bodies of a status and a message, and \<open>/people\<close> with the \<open>fullName\<close> and \<open>skills\<close> of the
  user-details records.
\<close>

theorem responses_free_of_secrets:
  assumes "scrub s = scrub s'"
  shows "(r \<noteq> PostLogin \<and> r \<noteq> PostClublogin \<longrightarrow>
            fst (app (D\<lparr> register := spec_register kdf gs \<rparr>) r s req)
              = fst (app (D\<lparr> register := spec_register kdf gs \<rparr>) r s' req)
            \<and> scrub (snd (app (D\<lparr> register := spec_register kdf gs \<rparr>) r s req))
              = scrub (snd (app (D\<lparr> register := spec_register kdf gs \<rparr>) r s' req)))
         \<and> (r = PostLogin \<or> r = PostClublogin \<longrightarrow>
              fst (app D r s req) = auth_failure D (passport_session s' req)
              \<or> fst (app D r s req) = login_ok (new_token D (next_id s')))
         \<and> (fst (app D PostSignup s req) = signup_ok \<or> fst (app D PostSignup s req) = signup_error)
         \<and> content (fst (app D GetPeople s req))
             = JsonPeople (map (\<lambda>d. (fullName d, skills d)) (userdetails s))"
proof (intro conjI impI)
  let ?D = "D\<lparr> register := spec_register kdf gs \<rparr>"
  note p = scrubbed_session [OF assms]
  note f = scrub_fields [OF assms]
  assume "r \<noteq> PostLogin \<and> r \<noteq> PostClublogin"
  then have "fst (dispatch ?D r s q) = fst (dispatch ?D r s' q)
             \<and> scrub (snd (dispatch ?D r s q)) = scrub (snd (dispatch ?D r s' q))" for q
    using scrubbed_signup [OF assms] scrubbed_makeproj [OF assms] scrubbed_clublisting [OF assms]
      scrubbed_userpage [OF assms] scrubbed_get_userpage [OF assms] scrubbed_reads [OF assms]
    by (cases r) simp_all
  then show "fst (app ?D r s req) = fst (app ?D r s' req)"
    and "scrub (snd (app ?D r s req)) = scrub (snd (app ?D r s' req))"
    by (simp_all add: app_def p)
next
  assume "r = PostLogin \<or> r = PostClublogin"
  then have "app D r s req = post_login D s (passport_session s req)"
    by (auto simp: app_def)
  then show "fst (app D r s req) = auth_failure D (passport_session s' req)
             \<or> fst (app D r s req) = login_ok (new_token D (next_id s'))"
    using login_shape [of D s "passport_session s req"]
    by (simp add: scrubbed_session [OF assms] scrub_fields(5) [OF assms])
next
  show "fst (app D PostSignup s req) = signup_ok \<or> fst (app D PostSignup s req) = signup_error"
    by (simp add: app_def signup_shape)
next
  show "content (fst (app D GetPeople s req))
        = JsonPeople (map (\<lambda>d. (fullName d, skills d)) (userdetails s))"
    by (simp add: app_def get_people_def reply_def)
qed

theorem responses_free_of_secrets_witness:
  "scrub example_state
     = scrub (example_state\<lparr> users := [alice\<lparr> hash := ''other'', salt := ''zz'' \<rparr>, bob] \<rparr>)
   \<and> fst (app example_deps GetUserpage example_state (example_request (Some ''tok-b'') []))
       = fst (app example_deps GetUserpage
               (example_state\<lparr> users := [alice\<lparr> hash := ''other'', salt := ''zz'' \<rparr>, bob] \<rparr>)
               (example_request (Some ''tok-b'') []))"
proof -
  let ?s' = "example_state\<lparr> users := [alice\<lparr> hash := ''other'', salt := ''zz'' \<rparr>, bob] \<rparr>"
  have e: "scrub example_state = scrub ?s'"
    by (simp add: scrub_def scrub_user_def example_state_def)
  show ?thesis
    using e responses_free_of_secrets
            [OF e, where r = GetUserpage and D = example_deps and kdf = example_kdf
               and gs = example_salt and req = "example_request (Some ''tok-b'') []"]
    by (simp add: example_register)
qed

section \<open>Session cookie flags\<close>

text \<open>
  C8, as stated, at a concrete deployment: with \<open>NODE_ENV\<close> unset and the service behind
  an encrypted transport, the configured cookie is not marked secure, so the stated
  policy does not hold.
\<close>

theorem cookie_policy_counterexample:
  "\<not> spec_cookie_policy True
       (cookie (sessionOptions \<lparr> NODE_ENV = None, SESSION_SECRET = Some ''s3cret'' \<rparr>))"
  by (simp add: spec_cookie_policy_def sessionOptions_def)

text \<open>
  C8, amended: the session cookie is always configured HTTP-only and with the same-site
  mode \<open>lax\<close>; it is marked secure exactly when \<open>NODE_ENV\<close> is \<open>production\<close>, whatever the
  transport is.
\<close>

theorem cookie_flags:
  "httpOnly (cookie (sessionOptions env))
   \<and> sameSite (cookie (sessionOptions env)) = Lax
   \<and> secure (cookie (sessionOptions env)) = (NODE_ENV env = Some ''production'')
   \<and> spec_cookie_policy tls (cookie (sessionOptions env))
       = (tls \<longrightarrow> NODE_ENV env = Some ''production'')"
  by (simp add: spec_cookie_policy_def sessionOptions_def)

theorem cookie_flags_witness:
  "secure (cookie (sessionOptions \<lparr> NODE_ENV = Some ''production'', SESSION_SECRET = None \<rparr>))
   \<and> spec_cookie_policy True
        (cookie (sessionOptions \<lparr> NODE_ENV = Some ''production'', SESSION_SECRET = None \<rparr>))"
  using cookie_flags [of "\<lparr> NODE_ENV = Some ''production'', SESSION_SECRET = None \<rparr>" True]
  by simp

end
